theory Spec2Isabelle
  imports Complex_Main "HOL-Library.AList"
begin

section \<open>JavaScript values used by the benchmark\<close>

text \<open>
  Row counts and loop counters are JavaScript numbers holding integers; they are
  modelled as \<open>int\<close> (a count handed in by the caller) and \<open>nat\<close> (a counter that
  starts at 0 and is only incremented).  Clock readings of \<open>performance.now()\<close> are
  modelled as exact rationals.  Thrown values are data.
\<close>

text \<open>
  A thrown value is an \<open>Error\<close> instance with its name and message, a string, or
  some other value, given with its \<open>String(v)\<close> and \<open>JSON.stringify(v)\<close> renderings
  (the second is \<open>undefined\<close> for some values).
\<close>

datatype js_error =
    ErrorObject string string
  | ThrownString string
  | ThrownOther string "string option"

abbreviation RangeError :: "string \<Rightarrow> js_error" where
  "RangeError m \<equiv> ErrorObject ''RangeError'' m"

abbreviation TypeError :: "string \<Rightarrow> js_error" where
  "TypeError m \<equiv> ErrorObject ''TypeError'' m"

text \<open>Number-to-string conversion of an integer, as a template literal performs it.\<close>

fun digits :: "nat \<Rightarrow> string" where
  "digits n =
     (if n < 10 then [''0123456789'' ! n]
      else digits (n div 10) @ [''0123456789'' ! (n mod 10)])"

declare digits.simps [simp del]

definition toString :: "int \<Rightarrow> string" where
  "toString k = (if k < 0 then ''-'' @ digits (nat (- k)) else digits (nat k))"

text \<open>
  \<open>a[i] = v\<close> on a JavaScript array: inside the array the slot is overwritten, beyond
  its end the array is extended with holes.  A hole is \<open>None\<close>.
\<close>

definition js_set :: "'a option list \<Rightarrow> nat \<Rightarrow> 'a \<Rightarrow> 'a option list" where
  "js_set a i v =
     (if i < length a then a[i := Some v]
      else a @ replicate (i - length a) None @ [Some v])"

text \<open>
  \<open>new Array(len)\<close>: an array of \<open>len\<close> holes; a length that is not an unsigned
  32-bit integer raises \<open>RangeError\<close>.
\<close>

definition new_Array :: "int \<Rightarrow> js_error + 'a option list" where
  "new_Array len =
     (if len < 0 \<or> 4294967295 < len then Inl (RangeError ''Invalid array length'')
      else Inr (replicate (nat len) None))"

section \<open>Synthetic data generator\<close>

record RowData =
  name :: string
  age :: int
  email :: string
  occupation :: string

definition OCCUPATIONS :: "string list" where
  "OCCUPATIONS = [''Engineer'', ''Designer'', ''Manager'', ''Developer'', ''Analyst'']"

subsection \<open>The pdf-lib, pdfMake and Typst workers\<close>

text \<open>The body of the \<open>for\<close> loop: the record stored at index \<open>i\<close>.\<close>

definition dummyRow :: "nat \<Rightarrow> RowData" where
  "dummyRow i =
     \<lparr> name = ''Person '' @ toString (int i + 1),
       age = 20 + (int i mod 40),
       email = ''person'' @ toString (int i + 1) @ ''@example.com'',
       occupation = OCCUPATIONS ! (i mod 5) \<rparr>"

function generateDummyData_loop ::
  "nat \<Rightarrow> int \<Rightarrow> RowData option list \<Rightarrow> RowData option list" where
  "generateDummyData_loop i rowCount dummyData =
     (if int i < rowCount
      then generateDummyData_loop (i + 1) rowCount (js_set dummyData i (dummyRow i))
      else dummyData)"
  by pat_completeness auto
termination
  by (relation "measure (\<lambda>(i, rowCount, dummyData). nat (rowCount - int i))") auto

declare generateDummyData_loop.simps [simp del]

definition generateDummyData :: "int \<Rightarrow> js_error + RowData option list" where
  "generateDummyData rowCount =
     (case new_Array rowCount of
        Inl e \<Rightarrow> Inl e
      | Inr dummyData \<Rightarrow> Inr (generateDummyData_loop 0 rowCount dummyData))"

subsection \<open>The PDFme worker: the generator with a cache\<close>

definition cachedRow :: "nat \<Rightarrow> RowData" where
  "cachedRow i =
     (let namePrefix = ''Person ''; emailSuffix = ''@example.com'' in
      \<lparr> name = namePrefix @ toString (int i + 1),
        age = 20 + (int i mod 40),
        email = ''person'' @ toString (int i + 1) @ emailSuffix,
        occupation = OCCUPATIONS ! (i mod length OCCUPATIONS) \<rparr>)"

function cached_loop ::
  "nat \<Rightarrow> int \<Rightarrow> RowData option list \<Rightarrow> RowData option list" where
  "cached_loop i rowCount dummyData =
     (if int i < rowCount
      then cached_loop (i + 1) rowCount (js_set dummyData i (cachedRow i))
      else dummyData)"
  by pat_completeness auto
termination
  by (relation "measure (\<lambda>(i, rowCount, dummyData). nat (rowCount - int i))") auto

declare cached_loop.simps [simp del]

type_synonym dataCache = "int \<rightharpoonup> RowData option list"

text \<open>
  The caching variant takes the worker's \<open>dataCache\<close> and returns it updated.  An
  exception leaves the cache as it was.
\<close>

definition generateDummyData_cached ::
  "int \<Rightarrow> dataCache \<Rightarrow> (js_error + RowData option list) \<times> dataCache" where
  "generateDummyData_cached rowCount dataCache =
     (case dataCache rowCount of
        Some cached \<Rightarrow> (Inr cached, dataCache)
      | None \<Rightarrow>
          (case new_Array rowCount of
             Inl e \<Rightarrow> (Inl e, dataCache)
           | Inr a \<Rightarrow>
               (let dummyData = cached_loop 0 rowCount a
                in (Inr dummyData, dataCache(rowCount \<mapsto> dummyData)))))"

text \<open>A worker's life: the cache after a sequence of calls, the first on the empty cache.\<close>

fun dataCache_after :: "int list \<Rightarrow> dataCache \<Rightarrow> dataCache" where
  "dataCache_after [] dataCache = dataCache"
| "dataCache_after (rowCount # calls) dataCache =
     dataCache_after calls (snd (generateDummyData_cached rowCount dataCache))"

text \<open>A cache is sound when it holds, for a row count, what the plain generator returns.\<close>

definition dataCache_ok :: "dataCache \<Rightarrow> bool" where
  "dataCache_ok c = (\<forall>k v. c k = Some v \<longrightarrow> generateDummyData k = Inr v)"

section \<open>Results and messages\<close>

text \<open>The \<open>metrics\<close> object a worker posts, and the one a service returns.\<close>

record WorkerMetrics =
  dataGenerationTime :: rat
  totalTime :: rat

record PdfGenerationMetrics = WorkerMetrics +
  workerStartTime :: "rat option"
  workerEndTime :: "rat option"
  totalProcessTime :: "rat option"

record PdfGenerationResult =
  pdfData :: string
  metrics :: PdfGenerationMetrics

text \<open>
  The response message of a worker, \<open>event.data\<close> on the main thread:
  \<open>{ success: true, data, metrics }\<close> or \<open>{ success: false, error }\<close>, where \<open>error\<close>
  may be missing.
\<close>

datatype response =
    Success string WorkerMetrics
  | Failure "string option"

section \<open>The PDFme worker\<close>

subsection \<open>Template and inputs\<close>

text \<open>
  A field of a page schema.  \<open>fname\<close> and \<open>ftype\<close> are the properties \<open>name\<close> and
  \<open>type\<close>; a field without \<open>backgroundColor\<close> has \<open>None\<close> there.
\<close>

record field =
  fname :: string
  ftype :: string
  position :: "int \<times> int"
  width :: int
  height :: int
  fontSize :: int
  fontColor :: string
  backgroundColor :: "string option"
  alignment :: string

record Template =
  basePdf :: "int \<times> int \<times> int list"
  schemas :: "field list list"

text \<open>
  The input of one page is an object from field names to strings: an association list in
  the order in which the properties were first set.
\<close>

type_synonym pageInput = "(string \<times> string) list"

definition createBaseSchema :: "field list" where
  "createBaseSchema =
     [ \<lparr> fname = ''header'', ftype = ''text'', position = (30, 30), width = 535, height = 20,
         fontSize = 18, fontColor = ''#000000'', backgroundColor = None,
         alignment = ''center'' \<rparr>,
       \<lparr> fname = ''nameHeader'', ftype = ''text'', position = (30, 100), width = 130,
         height = 15, fontSize = 12, fontColor = ''#ffffff'',
         backgroundColor = Some ''#4472C4'', alignment = ''center'' \<rparr>,
       \<lparr> fname = ''ageHeader'', ftype = ''text'', position = (160, 100), width = 60,
         height = 15, fontSize = 12, fontColor = ''#ffffff'',
         backgroundColor = Some ''#4472C4'', alignment = ''center'' \<rparr>,
       \<lparr> fname = ''emailHeader'', ftype = ''text'', position = (220, 100), width = 180,
         height = 15, fontSize = 12, fontColor = ''#ffffff'',
         backgroundColor = Some ''#4472C4'', alignment = ''center'' \<rparr>,
       \<lparr> fname = ''occupationHeader'', ftype = ''text'', position = (400, 100), width = 150,
         height = 15, fontSize = 12, fontColor = ''#ffffff'',
         backgroundColor = Some ''#4472C4'', alignment = ''center'' \<rparr> ]"

text \<open>The four fields of row \<open>i\<close>, the row being number \<open>rowsOnCurrentPage\<close> on its page.\<close>

definition rowFields :: "nat \<Rightarrow> nat \<Rightarrow> field list" where
  "rowFields i rowsOnCurrentPage =
     (let rowHeight = 20;
          startY = 120;
          yPosition = startY + (int rowsOnCurrentPage * rowHeight);
          bg = (if i mod 2 = 0 then ''#FFFFFF'' else ''#E6F0FF'')
      in [ \<lparr> fname = ''name_'' @ toString (int i), ftype = ''text'',
             position = (30, yPosition), width = 130, height = rowHeight, fontSize = 10,
             fontColor = ''#000000'', backgroundColor = Some bg, alignment = ''left'' \<rparr>,
           \<lparr> fname = ''age_'' @ toString (int i), ftype = ''text'',
             position = (160, yPosition), width = 60, height = rowHeight, fontSize = 10,
             fontColor = ''#000000'', backgroundColor = Some bg, alignment = ''center'' \<rparr>,
           \<lparr> fname = ''email_'' @ toString (int i), ftype = ''text'',
             position = (220, yPosition), width = 180, height = rowHeight, fontSize = 10,
             fontColor = ''#000000'', backgroundColor = Some bg, alignment = ''left'' \<rparr>,
           \<lparr> fname = ''occupation_'' @ toString (int i), ftype = ''text'',
             position = (400, yPosition), width = 150, height = rowHeight, fontSize = 10,
             fontColor = ''#000000'', backgroundColor = Some bg, alignment = ''left'' \<rparr> ])"

text \<open>
  One round of the loop that adds the row fields to the page schemas.  The state is
  \<open>currentPage\<close>, \<open>rowsOnCurrentPage\<close> and the schemas; pushing to a page that does not
  exist raises \<open>TypeError\<close>, which ends the loop.
\<close>

definition schema_round ::
  "nat \<Rightarrow> nat \<Rightarrow> js_error + nat \<times> nat \<times> field list list \<Rightarrow>
   js_error + nat \<times> nat \<times> field list list" where
  "schema_round maxRowsPerPage i state =
     (case state of
        Inl e \<Rightarrow> Inl e
      | Inr (currentPage, rowsOnCurrentPage, pages) \<Rightarrow>
          (let (currentPage, rowsOnCurrentPage) =
                 (if rowsOnCurrentPage \<ge> maxRowsPerPage then (currentPage + 1, 0)
                  else (currentPage, rowsOnCurrentPage))
           in if currentPage < length pages
              then Inr (currentPage, rowsOnCurrentPage + 1,
                        pages[currentPage := pages ! currentPage @ rowFields i rowsOnCurrentPage])
              else Inl (TypeError ''Cannot read properties of undefined (reading push)'')))"

text \<open>The input of page \<open>pageIndex\<close> before the rows are filled in.\<close>

definition initial_pageInput :: "int \<Rightarrow> nat \<Rightarrow> pageInput" where
  "initial_pageInput rowCount pageIndex =
     (if pageIndex = 0
      then [(''header'', ''Sample PDF Report - '' @ toString rowCount @ '' Rows''),
            (''nameHeader'', ''Name''),
            (''ageHeader'', ''Age''),
            (''emailHeader'', ''Email''),
            (''occupationHeader'', ''Occupation'')]
      else [])"

definition setRow :: "nat \<Rightarrow> RowData \<Rightarrow> pageInput \<Rightarrow> pageInput" where
  "setRow i rowData pageInput =
     AList.update (''occupation_'' @ toString (int i)) (occupation rowData)
       (AList.update (''email_'' @ toString (int i)) (email rowData)
          (AList.update (''age_'' @ toString (int i)) (toString (age rowData))
             (AList.update (''name_'' @ toString (int i)) (name rowData) pageInput)))"

text \<open>
  One round of \<open>data.forEach\<close> in \<open>generateInputs\<close>; \<open>forEach\<close> skips the holes of an
  array.
\<close>

definition input_round ::
  "nat \<Rightarrow> RowData option list \<Rightarrow> nat \<Rightarrow> js_error + nat \<times> nat \<times> pageInput list \<Rightarrow>
   js_error + nat \<times> nat \<times> pageInput list" where
  "input_round maxRowsPerPage data i state =
     (case state of
        Inl e \<Rightarrow> Inl e
      | Inr (currentPage, rowsOnCurrentPage, inputs) \<Rightarrow>
          (case data ! i of
             None \<Rightarrow> state
           | Some rowData \<Rightarrow>
               (let (currentPage, rowsOnCurrentPage) =
                      (if rowsOnCurrentPage \<ge> maxRowsPerPage then (currentPage + 1, 0)
                       else (currentPage, rowsOnCurrentPage))
                in if currentPage < length inputs
                   then Inr (currentPage, rowsOnCurrentPage + 1,
                             inputs[currentPage := setRow i rowData (inputs ! currentPage)])
                   else Inl (TypeError ''Cannot set properties of undefined''))))"

definition generateInputs ::
  "RowData option list \<Rightarrow> Template \<Rightarrow> int \<Rightarrow> nat \<Rightarrow> js_error + pageInput list" where
  "generateInputs data template rowCount maxRowsPerPage =
     (let totalPages = length (schemas template);
          inputs = map (initial_pageInput rowCount) [0..<totalPages]
      in case fold (input_round maxRowsPerPage data) [0..<length data] (Inr (0, 0, inputs)) of
           Inl e \<Rightarrow> Inl e
         | Inr (currentPage, rowsOnCurrentPage, inputs) \<Rightarrow> Inr inputs)"

subsection \<open>The caches of a worker and \<open>createTemplate\<close>\<close>

record caches =
  dataCache :: "int \<rightharpoonup> RowData option list"
  templateCache :: "int \<rightharpoonup> Template \<times> nat"

text \<open>
  \<open>createTemplate\<close> is called with 30 rows per page.  For a page size of 0 and a positive
  row count the source computes infinitely many pages and its page loop does not end;
  the model is not meant for that call.
\<close>

definition createTemplate ::
  "int \<Rightarrow> nat \<Rightarrow> caches \<Rightarrow> (js_error + Template \<times> pageInput list) \<times> caches" where
  "createTemplate rowCount maxRowsPerPage st =
     (let cachedTemplate = templateCache st rowCount;
          (generated, dc) = generateDummyData_cached rowCount (dataCache st);
          st1 = st\<lparr>dataCache := dc\<rparr>
      in case generated of
           Inl e \<Rightarrow> (Inl e, st1)
         | Inr data \<Rightarrow>
             (case (case cachedTemplate of
                      None \<Rightarrow> None
                    | Some (template, maxRows) \<Rightarrow>
                        if maxRows = maxRowsPerPage then Some template else None) of
                Some template \<Rightarrow>
                  (case generateInputs data template rowCount maxRowsPerPage of
                     Inl e \<Rightarrow> (Inl e, st1)
                   | Inr inputs \<Rightarrow> (Inr (template, inputs), st1))
              | None \<Rightarrow>
                  (let baseSchema = createBaseSchema;
                       totalPages =
                         nat \<lceil>rat_of_int rowCount / rat_of_nat maxRowsPerPage\<rceil>;
                       pages = baseSchema # replicate (totalPages - 1) baseSchema
                   in case fold (schema_round maxRowsPerPage) [0..<nat rowCount]
                             (Inr (0, 0, pages)) of
                        Inl e \<Rightarrow> (Inl e, st1)
                      | Inr (currentPage, rowsOnCurrentPage, pages) \<Rightarrow>
                          (let template =
                                 \<lparr> basePdf = (595, 842, [30, 30, 30, 30]),
                                   schemas = pages \<rparr>;
                               st2 = st1\<lparr>templateCache :=
                                            (templateCache st1)(rowCount \<mapsto>
                                               (template, maxRowsPerPage))\<rparr>
                           in case generateInputs data template rowCount maxRowsPerPage of
                                Inl e \<Rightarrow> (Inl e, st2)
                              | Inr inputs \<Rightarrow> (Inr (template, inputs), st2)))))"

subsection \<open>\<open>createPdf\<close> and the message handler\<close>

text \<open>
  \<open>generate\<close> stands for the PDFme generator followed by the base64 encoding of its
  bytes: it returns the encoded document or throws.  \<open>t\<^sub>0\<close> to \<open>t\<^sub>3\<close> are the four readings of
  \<open>performance.now()\<close> in the order in which \<open>createPdf\<close> takes them.
\<close>

definition createPdf_pdfMe ::
  "(Template \<Rightarrow> pageInput list \<Rightarrow> js_error + string) \<Rightarrow> rat \<Rightarrow> rat \<Rightarrow> rat \<Rightarrow> rat \<Rightarrow>
   int \<Rightarrow> caches \<Rightarrow> (js_error + string \<times> WorkerMetrics) \<times> caches" where
  "createPdf_pdfMe generate t\<^sub>0 t\<^sub>1 t\<^sub>2 t\<^sub>3 rowCount st =
     (let startTime = t\<^sub>0;
          dataStartTime = t\<^sub>1;
          (generated, dc) = generateDummyData_cached rowCount (dataCache st);
          st1 = st\<lparr>dataCache := dc\<rparr>
      in case generated of
           Inl e \<Rightarrow> (Inl e, st1)
         | Inr data \<Rightarrow>
             (let dgt = t\<^sub>2 - dataStartTime;
                  maxRowsPerPage = 30;
                  (created, st2) = createTemplate rowCount maxRowsPerPage st1
              in case created of
                   Inl e \<Rightarrow> (Inl e, st2)
                 | Inr (template, inputs) \<Rightarrow>
                     (case generate template inputs of
                        Inl e \<Rightarrow> (Inl e, st2)
                      | Inr base64String \<Rightarrow>
                          (let tt = t\<^sub>3 - startTime
                           in (Inr (base64String,
                                    \<lparr>dataGenerationTime = dgt, totalTime = tt\<rparr>), st2)))))"

text \<open>The messages the handler posts for one request, and the caches afterwards.\<close>

definition pdfMeWorker_onmessage ::
  "(Template \<Rightarrow> pageInput list \<Rightarrow> js_error + string) \<Rightarrow> rat \<Rightarrow> rat \<Rightarrow> rat \<Rightarrow> rat \<Rightarrow>
   int \<Rightarrow> caches \<Rightarrow> response list \<times> caches" where
  "pdfMeWorker_onmessage generate t\<^sub>0 t\<^sub>1 t\<^sub>2 t\<^sub>3 rowCount st =
     (case createPdf_pdfMe generate t\<^sub>0 t\<^sub>1 t\<^sub>2 t\<^sub>3 rowCount st of
        (Inr (data, reported), st1) \<Rightarrow> ([Success data reported], st1)
      | (Inl error, st1) \<Rightarrow>
          ([Failure (Some (case error of
                             ErrorObject n m \<Rightarrow> m
                           | ThrownString v \<Rightarrow> v
                           | ThrownOther v json \<Rightarrow> v))], st1))"

section \<open>The pdf-lib worker\<close>

subsection \<open>Drawing the table\<close>

text \<open>
  What is drawn on a page, in order: a text with its position, size and whether the
  bold font is used, or a grey rectangle with its position, extent and grey level.
\<close>

datatype draw =
    DrawText string rat rat rat bool
  | DrawRectangle rat rat rat rat rat

definition pageWidth :: rat where
  "pageWidth = 59528 / 100"

definition pageHeight :: rat where
  "pageHeight = 84189 / 100"

definition margin :: rat where
  "margin = 50"

definition headerHeight :: rat where
  "headerHeight = 30"

definition rowHeight :: rat where
  "rowHeight = 25"

definition colWidths :: "rat list" where
  "colWidths =
     [(pageWidth - margin * 2) * (25 / 100),
      (pageWidth - margin * 2) * (1 / 10),
      (pageWidth - margin * 2) * (4 / 10),
      (pageWidth - margin * 2) * (25 / 100)]"

definition headerLabels :: "string list" where
  "headerLabels = [''Name'', ''Age'', ''Email'', ''Occupation'']"

text \<open>\<open>currentX\<close> when column \<open>i\<close> is drawn: the margin plus the widths of the columns before.\<close>

definition currentX :: "nat \<Rightarrow> rat" where
  "currentX i = margin + sum_list (take i colWidths)"

text \<open>The header of a table: the grey bar and the four labels.\<close>

definition drawHeader :: "rat \<Rightarrow> draw list" where
  "drawHeader currentY =
     DrawRectangle margin (currentY - headerHeight) (pageWidth - margin * 2) headerHeight (9 / 10)
     # map (\<lambda>i. DrawText (headerLabels ! i) (currentX i + 5) (currentY - 20) 12 True)
         [0..<length headerLabels]"

text \<open>Title, subtitle and description at the top of the first page.\<close>

definition drawTitle :: "int \<Rightarrow> draw list" where
  "drawTitle rowCount =
     [DrawText ''Sample PDF Report'' margin (pageHeight - margin) 18 True,
      DrawText (''Generated with '' @ toString rowCount @ '' rows of data'')
        margin (pageHeight - margin - 25) 14 False,
      DrawText ''This PDF was generated on the client-side using Web Workers and pdf-lib''
        margin (pageHeight - margin - 50) 10 False]"

text \<open>One data row: a background on every second row, then the four cells.\<close>

definition drawRow :: "nat \<Rightarrow> RowData \<Rightarrow> rat \<Rightarrow> draw list" where
  "drawRow rowIndex row currentY =
     (if rowIndex mod 2 = 1
      then [DrawRectangle margin (currentY - rowHeight) (pageWidth - margin * 2) rowHeight
              (95 / 100)]
      else [])
     @ [DrawText (name row) (currentX 0 + 5) (currentY - 15) 10 False,
        DrawText (toString (age row)) (currentX 1 + 5) (currentY - 15) 10 False,
        DrawText (email row) (currentX 2 + 5) (currentY - 15) 10 False,
        DrawText (occupation row) (currentX 3 + 5) (currentY - 15) 10 False]"

definition maxRowsOnFirstPage :: nat where
  "maxRowsOnFirstPage =
     nat \<lfloor>((pageHeight - margin - 80 - headerHeight) - margin) / rowHeight\<rfloor>"

definition rowsPerPage :: nat where
  "rowsPerPage = nat \<lfloor>(pageHeight - margin * 2 - headerHeight) / rowHeight\<rfloor>"

text \<open>
  One round of the \<open>while\<close> loop over the rows.  The state is \<open>pageIndex\<close>, \<open>currentY\<close> and
  the pages of the document.  Reading a property of a hole of \<open>data\<close>, or drawing on a
  page that does not exist, raises \<open>TypeError\<close>.
\<close>

definition row_round ::
  "RowData option list \<Rightarrow> nat \<Rightarrow> js_error + nat \<times> rat \<times> draw list list \<Rightarrow>
   js_error + nat \<times> rat \<times> draw list list" where
  "row_round data rowIndex state =
     (case state of
        Inl e \<Rightarrow> Inl e
      | Inr (pageIndex, currentY, pages) \<Rightarrow>
          (let (pageIndex, currentY, pages) =
                 (if (pageIndex = 0 \<and> rowIndex \<ge> maxRowsOnFirstPage) \<or>
                     (pageIndex > 0 \<and>
                      rowIndex \<ge> maxRowsOnFirstPage + pageIndex * rowsPerPage)
                  then (pageIndex + 1, pageHeight - margin - headerHeight,
                        pages @ [drawHeader (pageHeight - margin)])
                  else (pageIndex, currentY, pages))
           in case data ! rowIndex of
                None \<Rightarrow> Inl (TypeError ''Cannot read properties of undefined (reading name)'')
              | Some row \<Rightarrow>
                  if pageIndex < length pages
                  then Inr (pageIndex, currentY - rowHeight,
                            pages[pageIndex := pages ! pageIndex @ drawRow rowIndex row currentY])
                  else Inl (TypeError
                              ''Cannot read properties of undefined (reading drawRectangle)'')))"

text \<open>The pages drawn for the generated data: the first page, then the loop.\<close>

definition drawTable :: "int \<Rightarrow> RowData option list \<Rightarrow> js_error + draw list list" where
  "drawTable rowCount data =
     (let tableTop = pageHeight - margin - 80;
          page = drawTitle rowCount @ drawHeader tableTop;
          currentY = tableTop - headerHeight
      in case fold (row_round data) [0..<length data] (Inr (0, currentY, [page])) of
           Inl e \<Rightarrow> Inl e
         | Inr (pageIndex, currentY, pages) \<Rightarrow> Inr pages)"

subsection \<open>\<open>createPdf\<close> and the message handler\<close>

text \<open>
  \<open>save\<close> stands for pdf-lib: creating the document, embedding the fonts, serialising
  the pages drawn and encoding the bytes in base64; it returns the encoded document or
  throws.  \<open>t\<^sub>0\<close>, \<open>t\<^sub>1\<close>, \<open>t\<^sub>2\<close> are the three readings of \<open>performance.now()\<close> in order.
\<close>

definition createPdf_pdfLib ::
  "(draw list list \<Rightarrow> js_error + string) \<Rightarrow> rat \<Rightarrow> rat \<Rightarrow> rat \<Rightarrow> int \<Rightarrow>
   js_error + string \<times> WorkerMetrics" where
  "createPdf_pdfLib save t\<^sub>0 t\<^sub>1 t\<^sub>2 rowCount =
     (let startTime = t\<^sub>0
      in case generateDummyData rowCount of
           Inl e \<Rightarrow> Inl e
         | Inr data \<Rightarrow>
             (let dgt = t\<^sub>1 - startTime
              in case drawTable rowCount data of
                   Inl e \<Rightarrow> Inl e
                 | Inr pages \<Rightarrow>
                     (case save pages of
                        Inl e \<Rightarrow> Inl e
                      | Inr pdfBase64 \<Rightarrow>
                          (let tt = t\<^sub>2 - startTime
                           in Inr (pdfBase64, \<lparr>dataGenerationTime = dgt, totalTime = tt\<rparr>)))))"

definition pdfLibWorker_onmessage ::
  "(draw list list \<Rightarrow> js_error + string) \<Rightarrow> rat \<Rightarrow> rat \<Rightarrow> rat \<Rightarrow> int \<Rightarrow> response list" where
  "pdfLibWorker_onmessage save t\<^sub>0 t\<^sub>1 t\<^sub>2 rowCount =
     (case createPdf_pdfLib save t\<^sub>0 t\<^sub>1 t\<^sub>2 rowCount of
        Inr (data, reported) \<Rightarrow>
          [Success data \<lparr> dataGenerationTime = dataGenerationTime reported,
                          totalTime = totalTime reported \<rparr>]
      | Inl error \<Rightarrow>
          [Failure (Some (case error of
                            ErrorObject n m \<Rightarrow> m
                          | ThrownString v \<Rightarrow> ''Unknown error''
                          | ThrownOther v json \<Rightarrow> ''Unknown error''))])"

section \<open>The pdfMake worker\<close>

text \<open>
  The document definition, as far as it depends on the data: the subtitle and the body of
  the table, a header row followed by one row of four cell texts for every record.
\<close>

record docDefinition =
  subtitle :: string
  body :: "string list option list"

function tableBody_loop ::
  "nat \<Rightarrow> RowData option list \<Rightarrow> string list option list \<Rightarrow>
   js_error + string list option list" where
  "tableBody_loop i data tableBody =
     (if i < length data
      then (case data ! i of
              None \<Rightarrow> Inl (TypeError ''Cannot read properties of undefined (reading name)'')
            | Some row \<Rightarrow>
                tableBody_loop (i + 1) data
                  (js_set tableBody (i + 1)
                     [name row, toString (age row), email row, occupation row]))
      else Inr tableBody)"
  by pat_completeness auto
termination
  by (relation "measure (\<lambda>(i, data, tableBody). length data - i)") auto

declare tableBody_loop.simps [simp del]

text \<open>\<open>t\<^sub>1\<close> and \<open>t\<^sub>2\<close> are the readings at the start and at the end of the function.\<close>

definition createPdfDefinition :: "rat \<Rightarrow> rat \<Rightarrow> int \<Rightarrow> js_error + docDefinition \<times> rat" where
  "createPdfDefinition t\<^sub>1 t\<^sub>2 rowCount =
     (let startTime = t\<^sub>1
      in case generateDummyData rowCount of
           Inl e \<Rightarrow> Inl e
         | Inr data \<Rightarrow>
             (let headerRow = [''Name'', ''Age'', ''Email'', ''Occupation'']
              in case new_Array (int (length data) + 1) of
                   Inl e \<Rightarrow> Inl e
                 | Inr allocated \<Rightarrow>
                     (case tableBody_loop 0 data (js_set allocated 0 headerRow) of
                        Inl e \<Rightarrow> Inl e
                      | Inr tableBody \<Rightarrow>
                          (let docDef =
                                 \<lparr> subtitle =
                                     ''Generated with '' @ toString rowCount @ '' rows of data'',
                                   body = tableBody \<rparr>;
                               dgt = t\<^sub>2 - startTime
                           in Inr (docDef, dgt)))))"

text \<open>
  What pdfMake does with a document definition when asked for its base64 form: it
  throws at once, it calls the callback back with the encoded document, or it never
  calls back.
\<close>

datatype pdfMake_outcome =
    Throws js_error
  | CallsBack string
  | NeverCallsBack

text \<open>
  \<open>t\<^sub>0\<close> is the reading at the start of the handler, \<open>t\<^sub>3\<close> the reading inside the
  callback.
\<close>

definition pdfMakeWorker_onmessage ::
  "(docDefinition \<Rightarrow> pdfMake_outcome) \<Rightarrow> rat \<Rightarrow> rat \<Rightarrow> rat \<Rightarrow> rat \<Rightarrow> int \<Rightarrow>
   response list" where
  "pdfMakeWorker_onmessage getBase64 t\<^sub>0 t\<^sub>1 t\<^sub>2 t\<^sub>3 rowCount =
     (let totalStartTime = t\<^sub>0;
          failure = (\<lambda>error.
            [Failure (Some (case error of
                              ErrorObject n m \<Rightarrow> m
                            | ThrownString v \<Rightarrow> ''Unknown error''
                            | ThrownOther v json \<Rightarrow> ''Unknown error''))])
      in case createPdfDefinition t\<^sub>1 t\<^sub>2 rowCount of
           Inl error \<Rightarrow> failure error
         | Inr (docDef, dgt) \<Rightarrow>
             (case getBase64 docDef of
                Throws error \<Rightarrow> failure error
              | NeverCallsBack \<Rightarrow> []
              | CallsBack base64Data \<Rightarrow>
                  (let tt = t\<^sub>3 - totalStartTime
                   in [Success base64Data \<lparr>dataGenerationTime = dgt, totalTime = tt\<rparr>])))"

section \<open>The Typst worker\<close>

text \<open>
  \<open>typst\<close> stands for the initialisation of Typst, the markup written for the data, its
  compilation and the base64 encoding: it throws, or returns the encoded document, or
  \<open>None\<close> when the compiler returned no bytes.  \<open>t\<^sub>0\<close>, \<open>t\<^sub>1\<close>, \<open>t\<^sub>2\<close> are the readings in
  order.
\<close>

definition createPdf_typst ::
  "(RowData option list \<Rightarrow> js_error + string option) \<Rightarrow> rat \<Rightarrow> rat \<Rightarrow> rat \<Rightarrow> int \<Rightarrow>
   js_error + string \<times> WorkerMetrics" where
  "createPdf_typst typst t\<^sub>0 t\<^sub>1 t\<^sub>2 rowCount =
     (let startTime = t\<^sub>0
      in case generateDummyData rowCount of
           Inl e \<Rightarrow> Inl e
         | Inr data \<Rightarrow>
             (let dgt = t\<^sub>1 - startTime
              in case typst data of
                   Inl e \<Rightarrow> Inl e
                 | Inr None \<Rightarrow> Inl (ErrorObject ''Error'' ''Failed to generate PDF with Typst'')
                 | Inr (Some pdfBase64) \<Rightarrow>
                     (let tt = t\<^sub>2 - startTime
                      in Inr (pdfBase64, \<lparr>dataGenerationTime = dgt, totalTime = tt\<rparr>))))"

text \<open>
  The handler reads the clock before and after \<open>createPdf\<close> (\<open>h\<^sub>0\<close> and \<open>h\<^sub>1\<close>), but posts
  the metrics of \<open>createPdf\<close>.
\<close>

definition typstWorker_onmessage ::
  "(RowData option list \<Rightarrow> js_error + string option) \<Rightarrow> rat \<Rightarrow> rat \<Rightarrow> rat \<Rightarrow> rat \<Rightarrow> rat \<Rightarrow>
   int \<Rightarrow> response list" where
  "typstWorker_onmessage typst h\<^sub>0 t\<^sub>0 t\<^sub>1 t\<^sub>2 h\<^sub>1 rowCount =
     (let totalStartTime = h\<^sub>0
      in case createPdf_typst typst t\<^sub>0 t\<^sub>1 t\<^sub>2 rowCount of
           Inr (data, reported) \<Rightarrow>
             (let unused = h\<^sub>1 - totalStartTime
              in [Success data \<lparr> dataGenerationTime = dataGenerationTime reported,
                                 totalTime = totalTime reported \<rparr>])
         | Inl error \<Rightarrow>
             [Failure (case error of
                         ErrorObject n m \<Rightarrow> Some (n @ '': '' @ m)
                       | ThrownString v \<Rightarrow> Some v
                       | ThrownOther v json \<Rightarrow> json)])"

section \<open>Pages of a table\<close>

text \<open>
  Following the words of the specification: with a fixed maximum of \<open>maxRows\<close> records
  on a page, page \<open>p\<close> of a table of \<open>n\<close> records holds the records from
  \<open>p * maxRows\<close> up to, but not including, \<open>(p + 1) * maxRows\<close>, as far as they exist.
\<close>

definition page_rows :: "nat \<Rightarrow> nat \<Rightarrow> nat \<Rightarrow> nat list" where
  "page_rows maxRows n p = [p * maxRows ..< min n (p * maxRows + maxRows)]"

text \<open>The same when the first page holds \<open>first\<close> records and the later ones \<open>maxRows\<close>.\<close>

definition page_rows_after :: "nat \<Rightarrow> nat \<Rightarrow> nat \<Rightarrow> nat \<Rightarrow> nat list" where
  "page_rows_after first maxRows n p =
     (if p = 0 then [0 ..< min n first]
      else [first + (p - 1) * maxRows ..< min n (first + p * maxRows)])"

text \<open>
  The template and the inputs that \<open>createTemplate\<close> is to return for a row count, with 30
  rows on a page: every page schema is the base schema followed by the fields of the
  rows of the page, and every page input is the initial input of the page with the rows
  of the page set.
\<close>

definition pdfMe_pages :: "int \<Rightarrow> nat" where
  "pdfMe_pages rowCount = max 1 ((nat rowCount + 29) div 30)"

definition paged_template :: "int \<Rightarrow> Template" where
  "paged_template rowCount =
     \<lparr> basePdf = (595, 842, [30, 30, 30, 30]),
       schemas =
         map (\<lambda>p. createBaseSchema @
                   concat (map (\<lambda>i. rowFields i (i mod 30)) (page_rows 30 (nat rowCount) p)))
           [0..<pdfMe_pages rowCount] \<rparr>"

definition paged_inputs :: "int \<Rightarrow> pageInput list" where
  "paged_inputs rowCount =
     map (\<lambda>p. fold (\<lambda>i. setRow i (dummyRow i)) (page_rows 30 (nat rowCount) p)
                 (initial_pageInput rowCount p))
       [0..<pdfMe_pages rowCount]"

text \<open>
  The caches of a PDFme worker are sound: the data cache holds what the generator
  returns, the template cache holds paged templates for 30 rows on a page.
\<close>

definition caches_ok :: "caches \<Rightarrow> bool" where
  "caches_ok st =
     (dataCache_ok (dataCache st) \<and>
      (\<forall>k t m. templateCache st k = Some (t, m) \<longrightarrow>
         m = 30 \<and> 0 \<le> k \<and> k \<le> 4294967295 \<and> t = paged_template k))"

definition empty_caches :: caches where
  "empty_caches = \<lparr> dataCache = Map.empty, templateCache = Map.empty \<rparr>"

text \<open>
  The vertical position at which the pdf-lib worker draws row \<open>i\<close>: rows 0 to 24 below
  the header of the first page, the later rows in groups of 28 below the header of
  their page.
\<close>

definition row_y :: "nat \<Rightarrow> rat" where
  "row_y i =
     (if i < 25 then pageHeight - margin - 80 - headerHeight - of_nat i * rowHeight
      else pageHeight - margin - headerHeight - of_nat ((i - 25) mod 28) * rowHeight)"

text \<open>The number of pages the pdf-lib worker has drawn when \<open>r\<close> rows are on paper.\<close>

definition pdfLib_pages :: "nat \<Rightarrow> nat" where
  "pdfLib_pages r = (if r \<le> 25 then 1 else (r - 26) div 28 + 2)"

definition paged_drawing :: "int \<Rightarrow> draw list list" where
  "paged_drawing rowCount =
     map (\<lambda>p. (if p = 0 then drawTitle rowCount @ drawHeader (pageHeight - margin - 80)
                else drawHeader (pageHeight - margin))
               @ concat (map (\<lambda>i. drawRow i (dummyRow i) (row_y i))
                           (page_rows_after 25 28 (nat rowCount) p)))
       [0..<pdfLib_pages (nat rowCount)]"

text \<open>The names under which the header texts are put into a page input.\<close>

definition header_keys :: "string list" where
  "header_keys = [''header'', ''nameHeader'', ''ageHeader'', ''emailHeader'', ''occupationHeader'']"

section \<open>The services on the main thread\<close>

subsection \<open>Promises\<close>

text \<open>
  A promise is pending until the first call of \<open>resolve\<close> or \<open>reject\<close>; later calls
  have no effect.  A rejection carries the message of the \<open>Error\<close> it was made with.
\<close>

datatype 'a promise = Pending | Resolved 'a | Rejected string

definition resolve :: "'a \<Rightarrow> 'a promise \<Rightarrow> 'a promise" where
  "resolve v p = (case p of Pending \<Rightarrow> Resolved v | _ \<Rightarrow> p)"

definition reject :: "string \<Rightarrow> 'a promise \<Rightarrow> 'a promise" where
  "reject m p = (case p of Pending \<Rightarrow> Rejected m | _ \<Rightarrow> p)"

text \<open>\<open>error || fallback\<close>: a missing or empty \<open>error\<close> is falsy.\<close>

definition or_else :: "string option \<Rightarrow> string \<Rightarrow> string" where
  "or_else error fallback =
     (case error of None \<Rightarrow> fallback | Some m \<Rightarrow> if m = [] then fallback else m)"

subsection \<open>The state of the page\<close>

text \<open>
  A \<open>Worker\<close> object is identified by the number of workers constructed before it.
  The two handlers a call installs on its worker share the variables of that call: the
  worker, the row count, the start stamp and the promise the call returned.
\<close>

type_synonym worker = nat

datatype service = PdfMake | PdfLib | PdfMe | PdfMePooled | Typst

record closure =
  cl_service :: service
  cl_worker :: worker
  cl_rowCount :: int
  cl_workerStartTime :: rat
  cl_promise :: nat

record page =
  workerPool :: "worker list"
  pdfCache :: "int \<rightharpoonup> PdfGenerationResult"
  workers :: nat
  terminated :: "worker set"
  handlers :: "worker \<rightharpoonup> closure"
  outbox :: "(worker \<times> int) list"
  promises :: "PdfGenerationResult promise list"

text \<open>The page after loading: an empty pool, an empty cache, nothing else yet.\<close>

definition initial_page :: page where
  "initial_page =
     \<lparr> workerPool = [], pdfCache = Map.empty, workers = 0, terminated = {},
       handlers = Map.empty, outbox = [], promises = [] \<rparr>"

definition MAX_POOL_SIZE :: nat where
  "MAX_POOL_SIZE = 2"

definition new_Worker :: "page \<Rightarrow> worker \<times> page" where
  "new_Worker s = (workers s, s\<lparr>workers := workers s + 1\<rparr>)"

definition terminate :: "worker \<Rightarrow> page \<Rightarrow> page" where
  "terminate worker s = s\<lparr>terminated := insert worker (terminated s)\<rparr>"

definition postMessage :: "worker \<Rightarrow> int \<Rightarrow> page \<Rightarrow> page" where
  "postMessage worker rowCount s = s\<lparr>outbox := outbox s @ [(worker, rowCount)]\<rparr>"

text \<open>Calling \<open>resolve\<close> or \<open>reject\<close> of the promise with index \<open>k\<close>.\<close>

definition settle ::
  "nat \<Rightarrow> (PdfGenerationResult promise \<Rightarrow> PdfGenerationResult promise) \<Rightarrow> page \<Rightarrow> page" where
  "settle k f s =
     (if k < length (promises s) then s\<lparr>promises := (promises s)[k := f (promises s ! k)]\<rparr>
      else s)"

text \<open>
  The metrics of a successful result: the worker's two durations, the two stamps of the
  main thread and their difference.
\<close>

definition merge_metrics :: "WorkerMetrics \<Rightarrow> rat \<Rightarrow> rat \<Rightarrow> PdfGenerationMetrics" where
  "merge_metrics reported startStamp endStamp =
     (let totalProcessTime = endStamp - startStamp in
      \<lparr> dataGenerationTime = dataGenerationTime reported,
        totalTime = totalTime reported,
        workerStartTime = Some startStamp,
        workerEndTime = Some endStamp,
        totalProcessTime = Some totalProcessTime \<rparr>)"

subsection \<open>The services that start a worker for every call\<close>

text \<open>
  \<open>generatePdf\<close> (pdfMake), \<open>generatePdfWithPdfLib\<close>, \<open>generatePdfWithTypst\<close> and the
  first \<open>generatePdfWithPdfMe\<close> are the same text up to the script of the worker and two
  strings: the message used when the worker reports a failure without one, and the
  prefix put before the message of an error event.
\<close>

fun fallback_message :: "service \<Rightarrow> string" where
  "fallback_message PdfMake = ''PDF generation failed''"
| "fallback_message PdfLib = ''PDF generation failed''"
| "fallback_message Typst = ''PDF generation failed''"
| "fallback_message PdfMe = ''PDF generation with PDFme failed''"
| "fallback_message PdfMePooled = ''PDF generation with PDFme failed''"

fun error_prefix :: "service \<Rightarrow> string" where
  "error_prefix PdfMake = ''Worker error: ''"
| "error_prefix PdfLib = ''Worker error: ''"
| "error_prefix Typst = ''Worker error: ''"
| "error_prefix PdfMe = ''PDFme worker error: ''"
| "error_prefix PdfMePooled = ''PDFme worker error: ''"

definition fresh_onmessage :: "closure \<Rightarrow> rat \<Rightarrow> response \<Rightarrow> page \<Rightarrow> page" where
  "fresh_onmessage c now event s =
     (let workerEndTime = now;
          s1 = terminate (cl_worker c) s
      in case event of
           Success data reported \<Rightarrow>
             settle (cl_promise c)
               (resolve \<lparr> pdfData = data,
                          metrics = merge_metrics reported (cl_workerStartTime c) workerEndTime \<rparr>)
               s1
         | Failure error \<Rightarrow>
             settle (cl_promise c)
               (reject (or_else error (fallback_message (cl_service c)))) s1)"

definition fresh_onerror :: "closure \<Rightarrow> string \<Rightarrow> page \<Rightarrow> page" where
  "fresh_onerror c message s =
     settle (cl_promise c) (reject (error_prefix (cl_service c) @ message))
       (terminate (cl_worker c) s)"

definition generatePdf_fresh :: "service \<Rightarrow> int \<Rightarrow> rat \<Rightarrow> page \<Rightarrow> page" where
  "generatePdf_fresh service rowCount now s =
     (let workerStartTime = now;
          k = length (promises s);
          (worker, s1) = new_Worker s;
          s2 = s1\<lparr> promises := promises s1 @ [Pending],
                   handlers := (handlers s1)(worker \<mapsto>
                     \<lparr> cl_service = service, cl_worker = worker, cl_rowCount = rowCount,
                       cl_workerStartTime = workerStartTime, cl_promise = k \<rparr>) \<rparr>
      in postMessage worker rowCount s2)"

definition generatePdf :: "int \<Rightarrow> rat \<Rightarrow> page \<Rightarrow> page" where
  "generatePdf = generatePdf_fresh PdfMake"

definition generatePdfWithPdfLib :: "int \<Rightarrow> rat \<Rightarrow> page \<Rightarrow> page" where
  "generatePdfWithPdfLib = generatePdf_fresh PdfLib"

definition generatePdfWithTypst :: "int \<Rightarrow> rat \<Rightarrow> page \<Rightarrow> page" where
  "generatePdfWithTypst = generatePdf_fresh Typst"

definition generatePdfWithPdfMe_fresh :: "int \<Rightarrow> rat \<Rightarrow> page \<Rightarrow> page" where
  "generatePdfWithPdfMe_fresh = generatePdf_fresh PdfMe"

subsection \<open>The PDFme service with the worker pool and the result cache\<close>

definition getWorker :: "page \<Rightarrow> worker \<times> page" where
  "getWorker s =
     (if length (workerPool s) > 0
      then (last (workerPool s), s\<lparr>workerPool := butlast (workerPool s)\<rparr>)
      else new_Worker s)"

definition releaseWorker :: "worker \<Rightarrow> page \<Rightarrow> page" where
  "releaseWorker worker s =
     (if length (workerPool s) < MAX_POOL_SIZE
      then s\<lparr>workerPool := workerPool s @ [worker]\<rparr>
      else terminate worker s)"

definition pooled_onmessage :: "closure \<Rightarrow> rat \<Rightarrow> response \<Rightarrow> page \<Rightarrow> page" where
  "pooled_onmessage c now event s =
     (let workerEndTime = now;
          s1 = releaseWorker (cl_worker c) s
      in case event of
           Success data reported \<Rightarrow>
             (let result =
                    \<lparr> pdfData = data,
                      metrics = merge_metrics reported (cl_workerStartTime c) workerEndTime \<rparr>;
                  s2 = s1\<lparr>pdfCache := (pdfCache s1)(cl_rowCount c \<mapsto> result)\<rparr>
              in settle (cl_promise c) (resolve result) s2)
         | Failure error \<Rightarrow>
             settle (cl_promise c)
               (reject (or_else error ''PDF generation with PDFme failed'')) s1)"

definition pooled_onerror :: "closure \<Rightarrow> string \<Rightarrow> page \<Rightarrow> page" where
  "pooled_onerror c message s =
     settle (cl_promise c) (reject (''PDFme worker error: '' @ message))
       (releaseWorker (cl_worker c) s)"

definition generatePdfWithPdfMe :: "int \<Rightarrow> rat \<Rightarrow> page \<Rightarrow> page" where
  "generatePdfWithPdfMe rowCount now s =
     (case pdfCache s rowCount of
        Some cached \<Rightarrow> s\<lparr>promises := promises s @ [Resolved cached]\<rparr>
      | None \<Rightarrow>
          (let workerStartTime = now;
               k = length (promises s);
               (worker, s1) = getWorker s;
               s2 = s1\<lparr> promises := promises s1 @ [Pending],
                        handlers := (handlers s1)(worker \<mapsto>
                          \<lparr> cl_service = PdfMePooled, cl_worker = worker,
                            cl_rowCount = rowCount, cl_workerStartTime = workerStartTime,
                            cl_promise = k \<rparr>) \<rparr>
           in postMessage worker rowCount s2))"

definition clearPdfCache :: "page \<Rightarrow> page" where
  "clearPdfCache s = s\<lparr>pdfCache := Map.empty\<rparr>"

definition cleanupWorkerPool :: "page \<Rightarrow> page" where
  "cleanupWorkerPool s = (fold terminate (workerPool s) s)\<lparr>workerPool := []\<rparr>"

subsection \<open>What happens on the page\<close>

text \<open>
  The user interface calls a service, with the reading \<open>performance.now()\<close> gives at
  that moment; a message or error event of a worker is dispatched to the handlers
  installed on it, unless the worker has been terminated; the cache is cleared; the pool
  is cleaned up.
\<close>

datatype event =
    Call service int rat
  | MessageEvent worker rat response
  | ErrorEvent worker string
  | ClearPdfCache
  | CleanupWorkerPool

fun run_service :: "service \<Rightarrow> int \<Rightarrow> rat \<Rightarrow> page \<Rightarrow> page" where
  "run_service PdfMake = generatePdf"
| "run_service PdfLib = generatePdfWithPdfLib"
| "run_service Typst = generatePdfWithTypst"
| "run_service PdfMe = generatePdfWithPdfMe_fresh"
| "run_service PdfMePooled = generatePdfWithPdfMe"

definition onmessage :: "closure \<Rightarrow> rat \<Rightarrow> response \<Rightarrow> page \<Rightarrow> page" where
  "onmessage c =
     (if cl_service c = PdfMePooled then pooled_onmessage c else fresh_onmessage c)"

definition onerror :: "closure \<Rightarrow> string \<Rightarrow> page \<Rightarrow> page" where
  "onerror c =
     (if cl_service c = PdfMePooled then pooled_onerror c else fresh_onerror c)"

fun step :: "event \<Rightarrow> page \<Rightarrow> page" where
  "step (Call service rowCount now) s = run_service service rowCount now s"
| "step (MessageEvent worker now event) s =
     (case handlers s worker of
        None \<Rightarrow> s
      | Some c \<Rightarrow> if worker \<in> terminated s then s else onmessage c now event s)"
| "step (ErrorEvent worker message) s =
     (case handlers s worker of
        None \<Rightarrow> s
      | Some c \<Rightarrow> if worker \<in> terminated s then s else onerror c message s)"
| "step ClearPdfCache s = clearPdfCache s"
| "step CleanupWorkerPool s = cleanupWorkerPool s"

fun run_events :: "event list \<Rightarrow> page \<Rightarrow> page" where
  "run_events [] s = s"
| "run_events (e # es) s = run_events es (step e s)"

text \<open>A sequence of calls of the two pool functions alone.\<close>

datatype pool_op = GetWorker | ReleaseWorker worker

fun pool_step :: "pool_op \<Rightarrow> page \<Rightarrow> page" where
  "pool_step GetWorker s = snd (getWorker s)"
| "pool_step (ReleaseWorker worker) s = releaseWorker worker s"

fun pool_run :: "pool_op list \<Rightarrow> page \<Rightarrow> page" where
  "pool_run [] s = s"
| "pool_run (operation # ops) s = pool_run ops (pool_step operation s)"



subsection \<open>The order of the metrics\<close>





section \<open>Properties of the generator\<close>

lemma length_js_set_inside: "i < length a \<Longrightarrow> length (js_set a i v) = length a"
  by (simp add: js_set_def)

lemma generateDummyData_loop_fills:
  "length a = n \<Longrightarrow> i \<le> n \<Longrightarrow>
   generateDummyData_loop i (int n) a = take i a @ map (\<lambda>j. Some (dummyRow j)) [i..<n]"
proof (induction "n - i" arbitrary: i a)
  case 0
  then have "i = n" by simp
  with 0 show ?case by (simp add: generateDummyData_loop.simps)
next
  case (Suc d)
  then have lt: "i < n" by simp
  have len: "length (js_set a i (dummyRow i)) = n"
    using Suc.prems lt by (simp add: js_set_def)
  have "generateDummyData_loop i (int n) a =
        generateDummyData_loop (Suc i) (int n) (js_set a i (dummyRow i))"
    using lt by (subst generateDummyData_loop.simps) simp
  also have "\<dots> = take (Suc i) (js_set a i (dummyRow i)) @ map (\<lambda>j. Some (dummyRow j)) [Suc i..<n]"
    using Suc.hyps(1) [of "Suc i" "js_set a i (dummyRow i)"] Suc.hyps(2) len lt by simp
  also have "take (Suc i) (js_set a i (dummyRow i)) = take i a @ [Some (dummyRow i)]"
    using Suc.prems lt by (simp add: js_set_def take_Suc_conv_app_nth)
  finally show ?case
    using lt by (simp add: upt_conv_Cons)
qed

lemma cachedRow_eq: "cachedRow i = dummyRow i"
  by (simp add: cachedRow_def dummyRow_def OCCUPATIONS_def)

lemma cached_loop_eq: "cached_loop i rowCount a = generateDummyData_loop i rowCount a"
proof (induction i rowCount a rule: cached_loop.induct)
  case (1 i rowCount dummyData)
  show ?case
  proof (cases "int i < rowCount")
    case True
    have "cached_loop i rowCount dummyData =
          cached_loop (i + 1) rowCount (js_set dummyData i (cachedRow i))"
      using True by (subst cached_loop.simps) simp
    also have "\<dots> = generateDummyData_loop (i + 1) rowCount (js_set dummyData i (cachedRow i))"
      using True by (rule "1.IH")
    also have "\<dots> = generateDummyData_loop i rowCount dummyData"
      using True by (subst (2) generateDummyData_loop.simps) (simp add: cachedRow_eq)
    finally show ?thesis .
  next
    case False
    then show ?thesis
      by (subst cached_loop.simps, subst generateDummyData_loop.simps) simp
  qed
qed

lemma generateDummyData_ok:
  "0 \<le> rowCount \<Longrightarrow> rowCount \<le> 4294967295 \<Longrightarrow>
   generateDummyData rowCount = Inr (map (\<lambda>j. Some (dummyRow j)) [0..<nat rowCount])"
  using generateDummyData_loop_fills [of "replicate (nat rowCount) None" "nat rowCount" 0]
  by (simp add: generateDummyData_def new_Array_def)

lemma generateDummyData_cached_eq:
  "generateDummyData_cached rowCount Map.empty = (r, c) \<Longrightarrow> r = generateDummyData rowCount"
  by (auto simp: generateDummyData_cached_def generateDummyData_def cached_loop_eq Let_def
           split: sum.splits)

lemma dataCache_ok_empty: "dataCache_ok Map.empty"
  by (simp add: dataCache_ok_def)

lemma generateDummyData_cached_result:
  "dataCache_ok c \<Longrightarrow> fst (generateDummyData_cached rowCount c) = generateDummyData rowCount"
  by (auto simp: generateDummyData_cached_def generateDummyData_def cached_loop_eq Let_def
                 dataCache_ok_def split: sum.splits option.splits)

lemma generateDummyData_cached_keeps_ok:
  "dataCache_ok c \<Longrightarrow> dataCache_ok (snd (generateDummyData_cached rowCount c))"
  by (auto simp: generateDummyData_cached_def generateDummyData_def cached_loop_eq Let_def
                 dataCache_ok_def split: sum.splits option.splits)

lemma dataCache_after_ok: "dataCache_ok c \<Longrightarrow> dataCache_ok (dataCache_after calls c)"
  by (induction calls arbitrary: c) (simp_all add: generateDummyData_cached_keeps_ok)

text \<open>
  C6, as the code has it.  For every row count from 0 to 4294967295 the generator returns
  an array without holes of exactly \<open>rowCount\<close> records; record \<open>i\<close> has the name
  \<open>Person \<close> followed by \<open>i + 1\<close>, the age \<open>20 + (i mod 40)\<close>, the e-mail address
  \<open>person\<close> followed by \<open>i + 1\<close> and \<open>@example.com\<close>, and as occupation entry
  \<open>i mod 5\<close> of the five fixed labels; the row count 0 gives the empty array.
\<close>

theorem generateDummyData_records:
  assumes "0 \<le> rowCount" and "rowCount \<le> 4294967295"
  shows "\<exists>records.
           generateDummyData rowCount = Inr (map Some records) \<and>
           length records = nat rowCount \<and>
           (\<forall>i < nat rowCount.
              records ! i =
                \<lparr> name = ''Person '' @ toString (int i + 1),
                  age = 20 + (int i mod 40),
                  email = ''person'' @ toString (int i + 1) @ ''@example.com'',
                  occupation =
                    [''Engineer'', ''Designer'', ''Manager'', ''Developer'', ''Analyst'']
                      ! (i mod 5) \<rparr>) \<and>
           (rowCount = 0 \<longrightarrow> records = [])"
proof -
  let ?records = "map dummyRow [0..<nat rowCount]"
  have "generateDummyData rowCount = Inr (map Some ?records)"
    using assms by (simp add: generateDummyData_ok comp_def)
  moreover have "length ?records = nat rowCount" by simp
  moreover have "\<forall>i < nat rowCount. ?records ! i =
                \<lparr> name = ''Person '' @ toString (int i + 1),
                  age = 20 + (int i mod 40),
                  email = ''person'' @ toString (int i + 1) @ ''@example.com'',
                  occupation =
                    [''Engineer'', ''Designer'', ''Manager'', ''Developer'', ''Analyst'']
                      ! (i mod 5) \<rparr>"
    by (simp add: dummyRow_def OCCUPATIONS_def)
  moreover have "rowCount = 0 \<longrightarrow> ?records = []" by simp
  ultimately show ?thesis by blast
qed

theorem generateDummyData_records_witness:
  "generateDummyData 2 =
     Inr [Some \<lparr> name = ''Person 1'', age = 20, email = ''person1@example.com'',
                 occupation = ''Engineer'' \<rparr>,
          Some \<lparr> name = ''Person 2'', age = 21, email = ''person2@example.com'',
                 occupation = ''Designer'' \<rparr>]"
proof -
  have a: "(0::int) \<le> 2" and b: "(2::int) \<le> 4294967295" by simp_all
  obtain records where r: "generateDummyData 2 = Inr (map Some records)"
    and l: "length records = nat 2"
    and e: "\<forall>i < nat 2. records ! i =
                \<lparr> name = ''Person '' @ toString (int i + 1),
                  age = 20 + (int i mod 40),
                  email = ''person'' @ toString (int i + 1) @ ''@example.com'',
                  occupation =
                    [''Engineer'', ''Designer'', ''Manager'', ''Developer'', ''Analyst'']
                      ! (i mod 5) \<rparr>"
    using generateDummyData_records [OF a b] by blast
  from l obtain x y where xy: "records = [x, y]"
    by (cases records; cases "tl records"; cases "tl (tl records)") auto
  from e have "records ! 0 = \<lparr> name = ''Person '' @ toString 1, age = 20,
      email = ''person'' @ toString 1 @ ''@example.com'', occupation = ''Engineer'' \<rparr>"
    by (drule_tac x = 0 in spec) simp
  moreover from e have "records ! 1 = \<lparr> name = ''Person '' @ toString 2, age = 21,
      email = ''person'' @ toString 2 @ ''@example.com'', occupation = ''Designer'' \<rparr>"
    by (drule_tac x = 1 in spec) simp
  ultimately show ?thesis
    using r xy by (simp add: toString_def digits.simps)
qed

text \<open>
  C6, as the claim has it, fails at the first row count that is not an array length:
  \<open>new Array(4294967296)\<close> raises \<open>RangeError\<close> and no record is returned.
\<close>

theorem generateDummyData_counterexample:
  "generateDummyData 4294967296 = Inl (RangeError ''Invalid array length'')"
  by (simp add: generateDummyData_def new_Array_def)

text \<open>
  C8.  The generator is a function of the row count alone, also in the caching variant:
  whatever calls a worker has served since it started with an empty cache, a call of the
  caching generator returns what the plain generator returns for that row count, and a
  second call with the same row count returns the same again.
\<close>

theorem generateDummyData_idempotent:
  "(let c0 = dataCache_after calls Map.empty;
        (r1, c1) = generateDummyData_cached rowCount c0;
        (r2, c2) = generateDummyData_cached rowCount c1
    in r1 = generateDummyData rowCount \<and> r2 = r1 \<and> c2 = c1)"
proof -
  define c0 where "c0 = dataCache_after calls Map.empty"
  obtain r1 c1 where 1: "generateDummyData_cached rowCount c0 = (r1, c1)"
    by (cases "generateDummyData_cached rowCount c0")
  obtain r2 c2 where 2: "generateDummyData_cached rowCount c1 = (r2, c2)"
    by (cases "generateDummyData_cached rowCount c1")
  have ok0: "dataCache_ok c0"
    unfolding c0_def by (rule dataCache_after_ok [OF dataCache_ok_empty])
  have ok1: "dataCache_ok c1"
    using generateDummyData_cached_keeps_ok [OF ok0, of rowCount] 1 by simp
  have r1: "r1 = generateDummyData rowCount"
    using generateDummyData_cached_result [OF ok0, of rowCount] 1 by simp
  have r2: "r2 = generateDummyData rowCount"
    using generateDummyData_cached_result [OF ok1, of rowCount] 2 by simp
  have "c2 = c1"
    using 1 2 by (auto simp: generateDummyData_cached_def Let_def
                       split: option.splits sum.splits)
  with r1 r2 1 2 show ?thesis
    by (simp add: c0_def [symmetric])
qed

section \<open>Properties of the services\<close>

subsection \<open>What each primitive leaves alone\<close>

lemma releaseWorker_pool_le:
  "length (workerPool s) \<le> MAX_POOL_SIZE \<Longrightarrow> length (workerPool (releaseWorker worker s)) \<le> MAX_POOL_SIZE"
  by (simp add: releaseWorker_def terminate_def)

lemma getWorker_pool_le:
  "length (workerPool (snd (getWorker s))) \<le> length (workerPool s)"
  by (simp add: getWorker_def new_Worker_def)

lemma settle_fields [simp]:
  "workerPool (settle k f s) = workerPool s"
  "pdfCache (settle k f s) = pdfCache s"
  "workers (settle k f s) = workers s"
  "terminated (settle k f s) = terminated s"
  "handlers (settle k f s) = handlers s"
  "outbox (settle k f s) = outbox s"
  "length (promises (settle k f s)) = length (promises s)"
  by (simp_all add: settle_def)

lemma terminate_fields [simp]:
  "workerPool (terminate w s) = workerPool s"
  "pdfCache (terminate w s) = pdfCache s"
  "workers (terminate w s) = workers s"
  "handlers (terminate w s) = handlers s"
  "outbox (terminate w s) = outbox s"
  "promises (terminate w s) = promises s"
  by (simp_all add: terminate_def)

lemma fold_terminate_fields [simp]:
  "workerPool (fold terminate ws s) = workerPool s"
  "pdfCache (fold terminate ws s) = pdfCache s"
  "workers (fold terminate ws s) = workers s"
  "handlers (fold terminate ws s) = handlers s"
  "outbox (fold terminate ws s) = outbox s"
  "promises (fold terminate ws s) = promises s"
  by (induction ws arbitrary: s; simp)+

lemma releaseWorker_fields [simp]:
  "pdfCache (releaseWorker w s) = pdfCache s"
  "workers (releaseWorker w s) = workers s"
  "handlers (releaseWorker w s) = handlers s"
  "outbox (releaseWorker w s) = outbox s"
  "promises (releaseWorker w s) = promises s"
  by (simp_all add: releaseWorker_def)

lemma getWorker_fields [simp]:
  "pdfCache (snd (getWorker s)) = pdfCache s"
  "handlers (snd (getWorker s)) = handlers s"
  "outbox (snd (getWorker s)) = outbox s"
  "promises (snd (getWorker s)) = promises s"
  "terminated (snd (getWorker s)) = terminated s"
  by (simp_all add: getWorker_def new_Worker_def)

lemma step_pool_le:
  "length (workerPool s) \<le> MAX_POOL_SIZE \<Longrightarrow> length (workerPool (step e s)) \<le> MAX_POOL_SIZE"
proof (cases e)
  case (Call service rowCount now)
  have "length (workerPool (generatePdf_fresh b rowCount now s)) = length (workerPool s)" for b
    by (simp add: generatePdf_fresh_def new_Worker_def postMessage_def Let_def)
  moreover have "length (workerPool (generatePdfWithPdfMe rowCount now s)) \<le> length (workerPool s)"
    using getWorker_pool_le [of s]
    by (simp add: generatePdfWithPdfMe_def postMessage_def Let_def split_beta split: option.splits)
  moreover assume "length (workerPool s) \<le> MAX_POOL_SIZE"
  ultimately show ?thesis
    using Call
    by (cases service)
       (simp_all add: generatePdf_def generatePdfWithPdfLib_def generatePdfWithTypst_def
          generatePdfWithPdfMe_fresh_def)
next
  case (MessageEvent worker now event)
  assume "length (workerPool s) \<le> MAX_POOL_SIZE"
  then show ?thesis
    using MessageEvent releaseWorker_pool_le [of s]
    by (simp add: onmessage_def pooled_onmessage_def fresh_onmessage_def Let_def
             split: option.splits response.splits)
next
  case (ErrorEvent worker message)
  assume "length (workerPool s) \<le> MAX_POOL_SIZE"
  then show ?thesis
    using ErrorEvent releaseWorker_pool_le [of s]
    by (simp add: onerror_def pooled_onerror_def fresh_onerror_def split: option.splits)
next
  case ClearPdfCache
  assume "length (workerPool s) \<le> MAX_POOL_SIZE"
  then show ?thesis using ClearPdfCache by (simp add: clearPdfCache_def)
next
  case CleanupWorkerPool
  then show ?thesis by (simp add: cleanupWorkerPool_def)
qed

lemma run_events_pool_le:
  "length (workerPool s) \<le> MAX_POOL_SIZE \<Longrightarrow> length (workerPool (run_events es s)) \<le> MAX_POOL_SIZE"
  by (induction es arbitrary: s) (simp_all add: step_pool_le)

lemma pool_run_pool_le:
  "length (workerPool s) \<le> MAX_POOL_SIZE \<Longrightarrow> length (workerPool (pool_run ops s)) \<le> MAX_POOL_SIZE"
proof (induction ops arbitrary: s)
  case Nil
  then show ?case by simp
next
  case (Cons operation ops)
  have "length (workerPool (pool_step operation s)) \<le> MAX_POOL_SIZE"
    using Cons.prems getWorker_pool_le [of s] releaseWorker_pool_le [of s]
    by (cases operation) (simp_all add: le_trans)
  then show ?case using Cons.IH by simp
qed

text \<open>
  C2.  The pool never holds more than two workers, whatever calls of \<open>getWorker\<close> and
  \<open>releaseWorker\<close>, and whatever events of the page, follow one another.  On a full pool
  \<open>releaseWorker\<close> terminates the worker and leaves the pool as it is; otherwise it
  pushes the worker, and the next \<open>getWorker\<close> pops that worker again.  On a non-empty
  pool \<open>getWorker\<close> pops the last worker pushed; on an empty pool it constructs a new one.
\<close>

theorem worker_pool_bounded:
  "(length (workerPool s) \<le> 2 \<longrightarrow>
      length (workerPool (pool_run ops s)) \<le> 2 \<and>
      length (workerPool (run_events es s)) \<le> 2) \<and>
   (length (workerPool s) = 2 \<longrightarrow>
      releaseWorker worker s = s\<lparr>terminated := insert worker (terminated s)\<rparr>) \<and>
   (length (workerPool s) < 2 \<longrightarrow>
      releaseWorker worker s = s\<lparr>workerPool := workerPool s @ [worker]\<rparr> \<and>
      getWorker (releaseWorker worker s) = (worker, s)) \<and>
   (workerPool s \<noteq> [] \<longrightarrow>
      getWorker s = (last (workerPool s), s\<lparr>workerPool := butlast (workerPool s)\<rparr>)) \<and>
   (workerPool s = [] \<longrightarrow>
      getWorker s = (workers s, s\<lparr>workers := workers s + 1\<rparr>))"
  using pool_run_pool_le [of s ops] run_events_pool_le [of s es]
  by (simp add: MAX_POOL_SIZE_def releaseWorker_def getWorker_def terminate_def new_Worker_def)

theorem worker_pool_bounded_witness:
  "length (workerPool (pool_run [ReleaseWorker 0, ReleaseWorker 1, ReleaseWorker 2, GetWorker]
      initial_page)) \<le> 2 \<and>
   releaseWorker 2 (initial_page\<lparr>workerPool := [0, 1]\<rparr>) =
     initial_page\<lparr>workerPool := [0, 1], terminated := {2}\<rparr> \<and>
   getWorker (releaseWorker 1 (initial_page\<lparr>workerPool := [0]\<rparr>)) =
     (1, initial_page\<lparr>workerPool := [0]\<rparr>) \<and>
   getWorker (initial_page\<lparr>workerPool := [0, 1]\<rparr>) = (1, initial_page\<lparr>workerPool := [0]\<rparr>) \<and>
   getWorker initial_page = (0, initial_page\<lparr>workers := 1\<rparr>)"
  using worker_pool_bounded [of initial_page "[ReleaseWorker 0, ReleaseWorker 1, ReleaseWorker 2, GetWorker]" "[]" 0]
    worker_pool_bounded [of "initial_page\<lparr>workerPool := [0, 1]\<rparr>" "[]" "[]" 2]
    worker_pool_bounded [of "initial_page\<lparr>workerPool := [0]\<rparr>" "[]" "[]" 1]
  by (simp add: initial_page_def MAX_POOL_SIZE_def releaseWorker_def getWorker_def
        terminate_def new_Worker_def)

subsection \<open>The result cache\<close>

lemma postMessage_fields [simp]:
  "workerPool (postMessage w n s) = workerPool s"
  "pdfCache (postMessage w n s) = pdfCache s"
  "workers (postMessage w n s) = workers s"
  "terminated (postMessage w n s) = terminated s"
  "handlers (postMessage w n s) = handlers s"
  "outbox (postMessage w n s) = outbox s @ [(w, n)]"
  "promises (postMessage w n s) = promises s"
  by (simp_all add: postMessage_def)

lemma run_service_fresh:
  "service \<noteq> PdfMePooled \<Longrightarrow> run_service service = generatePdf_fresh service"
  by (cases service)
     (simp_all add: generatePdf_def generatePdfWithPdfLib_def generatePdfWithTypst_def
        generatePdfWithPdfMe_fresh_def)

lemma generatePdf_fresh_pdfCache [simp]:
  "pdfCache (generatePdf_fresh service rowCount now s) = pdfCache s"
  by (simp add: generatePdf_fresh_def new_Worker_def Let_def)

lemma generatePdfWithPdfMe_pdfCache [simp]:
  "pdfCache (generatePdfWithPdfMe rowCount now s) = pdfCache s"
  by (simp add: generatePdfWithPdfMe_def Let_def split_beta split: option.splits)

lemma run_service_pdfCache [simp]: "pdfCache (run_service service rowCount now s) = pdfCache s"
  by (cases "service = PdfMePooled") (simp_all add: run_service_fresh)

lemma onerror_pdfCache [simp]: "pdfCache (onerror c message s) = pdfCache s"
  by (simp add: onerror_def pooled_onerror_def fresh_onerror_def)

lemma onmessage_Failure_pdfCache [simp]:
  "pdfCache (onmessage c now (Failure error) s) = pdfCache s"
  by (simp add: onmessage_def pooled_onmessage_def fresh_onmessage_def Let_def)






lemma cache_hit:
  "pdfCache s rowCount = Some cached \<Longrightarrow>
   step (Call PdfMePooled rowCount now) s = s\<lparr>promises := promises s @ [Resolved cached]\<rparr>"
  by (simp add: generatePdfWithPdfMe_def)

lemma pooled_success:
  assumes "handlers s worker = Some c" and "cl_service c = PdfMePooled"
    and "worker \<notin> terminated s"
  shows "pdfCache (step (MessageEvent worker now (Success data reported)) s) (cl_rowCount c) =
           Some \<lparr> pdfData = data,
                   metrics = merge_metrics reported (cl_workerStartTime c) now \<rparr>"
    and "cl_promise c < length (promises s) \<Longrightarrow> promises s ! cl_promise c = Pending \<Longrightarrow>
         promises (step (MessageEvent worker now (Success data reported)) s) ! cl_promise c =
           Resolved \<lparr> pdfData = data,
                       metrics = merge_metrics reported (cl_workerStartTime c) now \<rparr>"
  using assms
  by (simp_all add: onmessage_def pooled_onmessage_def Let_def settle_def resolve_def)





subsection \<open>Settling the promise\<close>

lemma fresh_event_promise:
  assumes "cl_promise c < length (promises s)" and "promises s ! cl_promise c = Pending"
  shows "promises (fresh_onmessage c now (Success data reported) s) ! cl_promise c =
           Resolved \<lparr> pdfData = data,
                       metrics = merge_metrics reported (cl_workerStartTime c) now \<rparr>"
    and "promises (fresh_onmessage c now (Failure error) s) ! cl_promise c =
           Rejected (or_else error (fallback_message (cl_service c)))"
    and "promises (fresh_onerror c message s) ! cl_promise c =
           Rejected (error_prefix (cl_service c) @ message)"
  using assms
  by (simp_all add: fresh_onmessage_def fresh_onerror_def Let_def settle_def resolve_def
        reject_def)

lemma pooled_event_promise:
  assumes "cl_promise c < length (promises s)" and "promises s ! cl_promise c = Pending"
  shows "promises (pooled_onmessage c now (Success data reported) s) ! cl_promise c =
           Resolved \<lparr> pdfData = data,
                       metrics = merge_metrics reported (cl_workerStartTime c) now \<rparr>"
    and "promises (pooled_onmessage c now (Failure error) s) ! cl_promise c =
           Rejected (or_else error (fallback_message PdfMePooled))"
    and "promises (pooled_onerror c message s) ! cl_promise c =
           Rejected (error_prefix PdfMePooled @ message)"
  using assms
  by (simp_all add: pooled_onmessage_def pooled_onerror_def Let_def settle_def resolve_def
        reject_def)

lemma event_promise:
  assumes "cl_promise c < length (promises s)" and "promises s ! cl_promise c = Pending"
  shows "promises (onmessage c now (Success data reported) s) ! cl_promise c =
           Resolved \<lparr> pdfData = data,
                       metrics = merge_metrics reported (cl_workerStartTime c) now \<rparr>"
    and "promises (onmessage c now (Failure error) s) ! cl_promise c =
           Rejected (or_else error (fallback_message (cl_service c)))"
    and "promises (onerror c message s) ! cl_promise c =
           Rejected (error_prefix (cl_service c) @ message)"
  using fresh_event_promise [OF assms] pooled_event_promise [OF assms]
  by (simp_all add: onmessage_def onerror_def)

lemma or_else_nonempty: "fallback \<noteq> [] \<Longrightarrow> or_else error fallback \<noteq> []"
  by (simp add: or_else_def split: option.splits)

lemma fallback_message_nonempty: "fallback_message service \<noteq> []"
  by (cases service) simp_all

lemma error_prefix_nonempty: "error_prefix service \<noteq> []"
  by (cases service) simp_all

text \<open>
  C5.  For every service: when the handlers of a pending call receive a message that
  reports a failure, the promise is rejected with the message the worker supplied, or
  with the service's fallback message if the worker supplied none or an empty one; when
  they receive an error event, the promise is rejected with the service's prefix followed
  by the message of the event.  Either message is non-empty.
\<close>

theorem failure_rejects_with_message:
  assumes "handlers s worker = Some c" and "worker \<notin> terminated s"
    and "cl_promise c < length (promises s)" and "promises s ! cl_promise c = Pending"
  shows "(\<exists>m. promises (step (MessageEvent worker now (Failure error)) s) ! cl_promise c =
                 Rejected m \<and> m \<noteq> [] \<and>
               m = (case error of
                      None \<Rightarrow> fallback_message (cl_service c)
                    | Some supplied \<Rightarrow>
                        if supplied = [] then fallback_message (cl_service c) else supplied)) \<and>
         (\<exists>m. promises (step (ErrorEvent worker message) s) ! cl_promise c = Rejected m \<and>
               m \<noteq> [] \<and> m = error_prefix (cl_service c) @ message)"
  using assms event_promise(2,3) [OF assms(3,4)]
    or_else_nonempty [OF fallback_message_nonempty] error_prefix_nonempty
  by (simp add: or_else_def)

subsection \<open>Settled promises stay as they are\<close>

lemma resolve_settled: "p \<noteq> Pending \<Longrightarrow> resolve v p = p"
  by (cases p) (simp_all add: resolve_def)

lemma reject_settled: "p \<noteq> Pending \<Longrightarrow> reject m p = p"
  by (cases p) (simp_all add: reject_def)

lemma settle_keeps:
  assumes "promises s ! k \<noteq> Pending" and "\<And>p. p \<noteq> Pending \<Longrightarrow> f p = p"
  shows "promises (settle j f s) ! k = promises s ! k"
  using assms by (cases "j = k") (simp_all add: settle_def)

lemma onmessage_keeps:
  assumes "promises s ! k \<noteq> Pending"
  shows "promises (onmessage c now event s) ! k = promises s ! k"
proof -
  have t: "promises (terminate w s) ! k \<noteq> Pending" for w
    using assms by simp
  have r: "promises (releaseWorker w s) ! k \<noteq> Pending" for w
    using assms by simp
  have u: "promises (releaseWorker w s\<lparr>pdfCache := x\<rparr>) ! k \<noteq> Pending" for w x
    using assms by simp
  show ?thesis
    by (cases event)
       (simp_all add: onmessage_def fresh_onmessage_def pooled_onmessage_def Let_def
          settle_keeps [OF t] settle_keeps [OF r] settle_keeps [OF u]
          resolve_settled reject_settled)
qed

lemma onerror_keeps:
  assumes "promises s ! k \<noteq> Pending"
  shows "promises (onerror c message s) ! k = promises s ! k"
proof -
  have t: "promises (terminate w s) ! k \<noteq> Pending" for w
    using assms by simp
  have r: "promises (releaseWorker w s) ! k \<noteq> Pending" for w
    using assms by simp
  show ?thesis
    by (simp add: onerror_def fresh_onerror_def pooled_onerror_def
          settle_keeps [OF t] settle_keeps [OF r] reject_settled)
qed

lemma run_service_promises:
  "\<exists>p. promises (run_service service rowCount now s) = promises s @ [p]"
proof (cases "service = PdfMePooled")
  case True
  then show ?thesis
    by (simp add: generatePdfWithPdfMe_def Let_def split_beta split: option.splits)
next
  case False
  then show ?thesis
    by (simp add: run_service_fresh generatePdf_fresh_def new_Worker_def Let_def)
qed

lemma step_keeps_settled:
  assumes "k < length (promises s)" and "promises s ! k \<noteq> Pending"
  shows "k < length (promises (step e s)) \<and> promises (step e s) ! k = promises s ! k"
proof (cases e)
  case (Call service rowCount now)
  obtain p where "promises (run_service service rowCount now s) = promises s @ [p]"
    using run_service_promises by blast
  with Call assms(1) show ?thesis by (simp add: nth_append)
next
  case (MessageEvent worker now event)
  have "length (promises (onmessage c now event s)) = length (promises s)" for c
    by (cases event)
       (simp_all add: onmessage_def fresh_onmessage_def pooled_onmessage_def Let_def)
  with MessageEvent assms show ?thesis
    by (simp add: onmessage_keeps split: option.splits)
next
  case (ErrorEvent worker message)
  have "length (promises (onerror c message s)) = length (promises s)" for c
    by (simp add: onerror_def fresh_onerror_def pooled_onerror_def)
  with ErrorEvent assms show ?thesis
    by (simp add: onerror_keeps split: option.splits)
next
  case ClearPdfCache
  with assms show ?thesis by (simp add: clearPdfCache_def)
next
  case CleanupWorkerPool
  with assms show ?thesis by (simp add: cleanupWorkerPool_def)
qed

lemma run_events_keeps_settled:
  "k < length (promises s) \<Longrightarrow> promises s ! k \<noteq> Pending \<Longrightarrow>
   promises (run_events es s) ! k = promises s ! k"
proof (induction es arbitrary: s)
  case Nil
  then show ?case by simp
next
  case (Cons e es)
  from step_keeps_settled [OF Cons.prems, of e]
  have a: "k < length (promises (step e s))"
    and b: "promises (step e s) ! k = promises s ! k" by simp_all
  from b Cons.prems(2) have "promises (step e s) ! k \<noteq> Pending" by simp
  from Cons.IH [OF a this] b show ?case by simp
qed

lemma handlers_outbox [simp]:
  "outbox (onmessage c now event s) = outbox s"
  "outbox (onerror c message s) = outbox s"
  by (cases event;
      simp add: onmessage_def fresh_onmessage_def pooled_onmessage_def onerror_def
        fresh_onerror_def pooled_onerror_def Let_def)+

lemma step_event_outbox:
  "outbox (step (MessageEvent worker now event) s) = outbox s"
  "outbox (step (ErrorEvent worker message) s) = outbox s"
  by (simp_all split: option.splits)

lemma step_Call_outbox:
  "length (outbox (step (Call service rowCount now) s)) \<le> length (outbox s) + 1"
proof (cases "service = PdfMePooled")
  case True
  then show ?thesis
    by (simp add: generatePdfWithPdfMe_def Let_def split_beta split: option.splits)
next
  case False
  then show ?thesis
    by (simp add: run_service_fresh generatePdf_fresh_def new_Worker_def Let_def)
qed

lemma workers_post_once:
  "length (pdfLibWorker_onmessage save t\<^sub>0 t\<^sub>1 t\<^sub>2 rowCount) = 1"
  "length (fst (pdfMeWorker_onmessage generate t\<^sub>0 t\<^sub>1 t\<^sub>2 t\<^sub>3 rowCount st)) = 1"
  "length (pdfMakeWorker_onmessage getBase64 t\<^sub>0 t\<^sub>1 t\<^sub>2 t\<^sub>3 rowCount) \<le> 1"
  "length (typstWorker_onmessage typst h\<^sub>0 t\<^sub>0 t\<^sub>1 t\<^sub>2 h\<^sub>1 rowCount) = 1"
  by (simp_all add: pdfLibWorker_onmessage_def pdfMeWorker_onmessage_def
        pdfMakeWorker_onmessage_def typstWorker_onmessage_def Let_def
        split: sum.splits prod.splits pdfMake_outcome.splits)

lemma first_event_settles:
  assumes "cl_promise c < length (promises s)" and "promises s ! cl_promise c = Pending"
  shows "promises (onmessage c now event s) ! cl_promise c \<noteq> Pending"
    and "promises (onerror c message s) ! cl_promise c \<noteq> Pending"
  using event_promise [OF assms] by (cases event; simp)+

text \<open>
  C3.  For every service: a promise that is settled keeps its state through all later
  events of the page, so it is never resolved and also rejected, nor settled twice; the
  first message or error event that reaches the handlers of a pending call settles its
  promise; the handlers post nothing, and a call posts at most one request, so nothing is
  retried; and a worker posts one response to a request (the pdfMake worker none, if
  pdfMake never calls back).
\<close>

theorem settled_exactly_once:
  "(k < length (promises s) \<and> promises s ! k \<noteq> Pending \<longrightarrow>
      promises (run_events es s) ! k = promises s ! k) \<and>
   (handlers s worker = Some c \<and> worker \<notin> terminated s \<and>
    cl_promise c < length (promises s) \<and> promises s ! cl_promise c = Pending \<longrightarrow>
      promises (step (MessageEvent worker now event) s) ! cl_promise c \<noteq> Pending \<and>
      promises (step (ErrorEvent worker message) s) ! cl_promise c \<noteq> Pending) \<and>
   outbox (step (MessageEvent worker now event) s) = outbox s \<and>
   outbox (step (ErrorEvent worker message) s) = outbox s \<and>
   length (outbox (step (Call service rowCount now) s)) \<le> length (outbox s) + 1 \<and>
   length (pdfLibWorker_onmessage save t\<^sub>0 t\<^sub>1 t\<^sub>2 rowCount) = 1 \<and>
   length (fst (pdfMeWorker_onmessage generate t\<^sub>0 t\<^sub>1 t\<^sub>2 t\<^sub>3 rowCount st)) = 1 \<and>
   length (pdfMakeWorker_onmessage getBase64 t\<^sub>0 t\<^sub>1 t\<^sub>2 t\<^sub>3 rowCount) \<le> 1 \<and>
   length (typstWorker_onmessage typst h\<^sub>0 t\<^sub>0 t\<^sub>1 t\<^sub>2 h\<^sub>1 rowCount) = 1"
  using run_events_keeps_settled [of k s es] first_event_settles [of c s]
    step_event_outbox(1) [of worker now event s] step_event_outbox(2) [of worker message s]
    step_Call_outbox [of service rowCount now s] 
    workers_post_once(1) [of save t\<^sub>0 t\<^sub>1 t\<^sub>2 rowCount]
    workers_post_once(2) [of generate t\<^sub>0 t\<^sub>1 t\<^sub>2 t\<^sub>3 rowCount st]
    workers_post_once(3) [of getBase64 t\<^sub>0 t\<^sub>1 t\<^sub>2 t\<^sub>3 rowCount]
    workers_post_once(4) [of typst h\<^sub>0 t\<^sub>0 t\<^sub>1 t\<^sub>2 h\<^sub>1 rowCount]
  by simp


theorem settled_exactly_once_witness:
  "promises (run_events
      [Call PdfLib 3 0, MessageEvent 0 9 (Failure None),
       MessageEvent 0 10 (Success ''JVBERi0='' \<lparr>dataGenerationTime = 1, totalTime = 2\<rparr>),
       ErrorEvent 0 ''late''] initial_page) = [Rejected ''PDF generation failed''] \<and>
   promises (run_events [Call PdfLib 3 0, ErrorEvent 0 ''out of memory''] initial_page) =
     [Rejected ''Worker error: out of memory''] \<and>
   outbox (run_events [Call PdfLib 3 0, ErrorEvent 0 ''out of memory''] initial_page) =
     [(0, 3)]"
  using settled_exactly_once
      [of 0 "run_events [Call PdfLib 3 0, MessageEvent 0 9 (Failure None)] initial_page"
          "[MessageEvent 0 10 (Success ''JVBERi0='' \<lparr>dataGenerationTime = 1, totalTime = 2\<rparr>),
            ErrorEvent 0 ''late'']"]
    settled_exactly_once
      [of _ "step (Call PdfLib 3 0) initial_page" _ 0
          "\<lparr> cl_service = PdfLib, cl_worker = 0, cl_rowCount = 3, cl_workerStartTime = 0,
             cl_promise = 0 \<rparr>" _ _ "''out of memory''"]
  by (simp add: initial_page_def generatePdfWithPdfLib_def generatePdf_fresh_def
        new_Worker_def postMessage_def onmessage_def fresh_onmessage_def onerror_def
        fresh_onerror_def terminate_def settle_def resolve_def reject_def or_else_def Let_def)

theorem failure_rejects_with_message_witness:
  "promises (run_events [Call PdfMePooled 3 0, MessageEvent 0 9 (Failure (Some []))]
      initial_page) = [Rejected ''PDF generation with PDFme failed''] \<and>
   promises (run_events [Call Typst 3 0, MessageEvent 0 9 (Failure (Some ''Error: no font''))]
      initial_page) = [Rejected ''Error: no font''] \<and>
   promises (run_events [Call PdfMePooled 3 0, ErrorEvent 0 ''script failed'']
      initial_page) = [Rejected ''PDFme worker error: script failed'']"
  using failure_rejects_with_message
      [of "step (Call PdfMePooled 3 0) initial_page" 0
          "\<lparr> cl_service = PdfMePooled, cl_worker = 0, cl_rowCount = 3, cl_workerStartTime = 0,
             cl_promise = 0 \<rparr>" 9 "Some []" "''script failed''"]
    failure_rejects_with_message
      [of "step (Call Typst 3 0) initial_page" 0
          "\<lparr> cl_service = Typst, cl_worker = 0, cl_rowCount = 3, cl_workerStartTime = 0,
             cl_promise = 0 \<rparr>" 9 "Some ''Error: no font''" "''x''"]
  by (simp add: initial_page_def generatePdfWithPdfMe_def generatePdfWithTypst_def
        generatePdf_fresh_def getWorker_def releaseWorker_def MAX_POOL_SIZE_def
        new_Worker_def postMessage_def onmessage_def fresh_onmessage_def onerror_def
        fresh_onerror_def pooled_onmessage_def pooled_onerror_def
        terminate_def settle_def resolve_def reject_def or_else_def Let_def)

subsection \<open>Failures leave the cache alone\<close>

lemma cache_miss:
  assumes "pdfCache s rowCount = None"
  shows "outbox (step (Call PdfMePooled rowCount now) s) =
           outbox s @ [(fst (getWorker s), rowCount)]"
    and "promises (step (Call PdfMePooled rowCount now) s) = promises s @ [Pending]"
    and "handlers (step (Call PdfMePooled rowCount now) s) (fst (getWorker s)) =
           Some \<lparr> cl_service = PdfMePooled, cl_worker = fst (getWorker s),
                   cl_rowCount = rowCount, cl_workerStartTime = now,
                   cl_promise = length (promises s) \<rparr>"
  using assms by (simp_all add: generatePdfWithPdfMe_def Let_def split_beta)

text \<open>
  C9.  When the worker of a pending call of the pooled PDFme service reports a failure,
  or raises an error event, the promise is rejected and the result cache is left as it
  was.  If it held nothing for the row count of the call, the next call for that row
  count takes a worker, posts a request to it and returns a pending promise.
\<close>

theorem failure_not_cached:
  assumes "handlers s worker = Some c" and "cl_service c = PdfMePooled"
    and "worker \<notin> terminated s"
    and "cl_promise c < length (promises s)" and "promises s ! cl_promise c = Pending"
    and "s' = step (MessageEvent worker now (Failure error)) s \<or>
         s' = step (ErrorEvent worker message) s"
  shows "(\<exists>m. promises s' ! cl_promise c = Rejected m) \<and>
         pdfCache s' = pdfCache s \<and>
         (pdfCache s (cl_rowCount c) = None \<longrightarrow>
            outbox (step (Call PdfMePooled (cl_rowCount c) later) s') =
              outbox s' @ [(fst (getWorker s'), cl_rowCount c)] \<and>
            promises (step (Call PdfMePooled (cl_rowCount c) later) s') =
              promises s' @ [Pending])"
proof -
  have rejected: "\<exists>m. promises s' ! cl_promise c = Rejected m"
    using assms event_promise(2,3) [OF assms(4,5)] by auto
  have same: "pdfCache s' = pdfCache s"
    using assms(1,3,6) by auto
  have "pdfCache s (cl_rowCount c) = None \<longrightarrow>
            outbox (step (Call PdfMePooled (cl_rowCount c) later) s') =
              outbox s' @ [(fst (getWorker s'), cl_rowCount c)] \<and>
            promises (step (Call PdfMePooled (cl_rowCount c) later) s') =
              promises s' @ [Pending]"
    using cache_miss(1,2) [of s' "cl_rowCount c" later] same by simp
  with rejected same show ?thesis by blast
qed

theorem failure_not_cached_witness:
  "promises (run_events [Call PdfMePooled 3 0, MessageEvent 0 9 (Failure (Some ''no font'')),
      Call PdfMePooled 3 20] initial_page) = [Rejected ''no font'', Pending] \<and>
   outbox (run_events [Call PdfMePooled 3 0, MessageEvent 0 9 (Failure (Some ''no font'')),
      Call PdfMePooled 3 20] initial_page) = [(0, 3), (0, 3)] \<and>
   pdfCache (run_events [Call PdfMePooled 3 0, MessageEvent 0 9 (Failure (Some ''no font''))]
      initial_page) 3 = None"
  using failure_not_cached
      [of "step (Call PdfMePooled 3 0) initial_page" 0
          "\<lparr> cl_service = PdfMePooled, cl_worker = 0, cl_rowCount = 3, cl_workerStartTime = 0,
             cl_promise = 0 \<rparr>"
          "step (MessageEvent 0 9 (Failure (Some ''no font'')))
             (step (Call PdfMePooled 3 0) initial_page)" 9 "Some ''no font''" "''x''" 20]
  by (simp add: initial_page_def generatePdfWithPdfMe_def
        getWorker_def releaseWorker_def MAX_POOL_SIZE_def
        new_Worker_def postMessage_def onmessage_def pooled_onmessage_def
        settle_def reject_def or_else_def Let_def)

subsection \<open>A hit returns what was stored\<close>

text \<open>
  C10.  A call of the pooled PDFme service that finds its row count in the cache returns
  the stored result as it is.  After a successful answer at the reading \<open>endStamp\<close> to a
  call that started at \<open>cl_workerStartTime c\<close>, a later call for the same row count
  resolves with the very five metrics recorded then, whatever the clock reads at the
  later call.
\<close>

theorem cache_hit_unchanged:
  assumes "handlers s worker = Some c" and "cl_service c = PdfMePooled"
    and "worker \<notin> terminated s"
  shows "(let s1 = step (MessageEvent worker endStamp (Success data reported)) s;
              s2 = step (Call PdfMePooled (cl_rowCount c) later) s1
          in promises s2 =
               promises s1 @
               [Resolved
                  \<lparr> pdfData = data,
                    metrics =
                      \<lparr> dataGenerationTime = dataGenerationTime reported,
                        totalTime = totalTime reported,
                        workerStartTime = Some (cl_workerStartTime c),
                        workerEndTime = Some endStamp,
                        totalProcessTime = Some (endStamp - cl_workerStartTime c) \<rparr> \<rparr>]) \<and>
         (\<forall>cached. pdfCache s (cl_rowCount c) = Some cached \<longrightarrow>
            step (Call PdfMePooled (cl_rowCount c) later) s =
              s\<lparr>promises := promises s @ [Resolved cached]\<rparr>)"
proof -
  let ?s1 = "step (MessageEvent worker endStamp (Success data reported)) s"
  have "pdfCache ?s1 (cl_rowCount c) =
          Some \<lparr> pdfData = data,
                  metrics = merge_metrics reported (cl_workerStartTime c) endStamp \<rparr>"
    using assms by (rule pooled_success(1))
  from cache_hit [OF this, of later]
  have "promises (step (Call PdfMePooled (cl_rowCount c) later) ?s1) =
          promises ?s1 @
            [Resolved \<lparr> pdfData = data,
                        metrics = merge_metrics reported (cl_workerStartTime c) endStamp \<rparr>]"
    by simp
  then have a: "promises (step (Call PdfMePooled (cl_rowCount c) later) ?s1) =
          promises ?s1 @
            [Resolved
               \<lparr> pdfData = data,
                 metrics =
                   \<lparr> dataGenerationTime = dataGenerationTime reported,
                     totalTime = totalTime reported,
                     workerStartTime = Some (cl_workerStartTime c),
                     workerEndTime = Some endStamp,
                     totalProcessTime = Some (endStamp - cl_workerStartTime c) \<rparr> \<rparr>]"
    by (simp only: merge_metrics_def Let_def)
  have b: "\<forall>cached. pdfCache s (cl_rowCount c) = Some cached \<longrightarrow>
            step (Call PdfMePooled (cl_rowCount c) later) s =
              s\<lparr>promises := promises s @ [Resolved cached]\<rparr>"
    using cache_hit by blast
  from a b show ?thesis
    unfolding Let_def by blast
qed

theorem cache_hit_unchanged_witness:
  "promises (run_events
     [Call PdfMePooled 5 3,
      MessageEvent 0 10 (Success ''JVBERi0='' \<lparr>dataGenerationTime = 1, totalTime = 2\<rparr>),
      Call PdfMePooled 5 1000] initial_page) ! 1 =
     Resolved \<lparr> pdfData = ''JVBERi0='',
                metrics = \<lparr> dataGenerationTime = 1, totalTime = 2, workerStartTime = Some 3,
                            workerEndTime = Some 10, totalProcessTime = Some 7 \<rparr> \<rparr>"
  using cache_hit_unchanged
    [of "step (Call PdfMePooled 5 3) initial_page" 0
        "\<lparr> cl_service = PdfMePooled, cl_worker = 0, cl_rowCount = 5,
           cl_workerStartTime = 3, cl_promise = 0 \<rparr>"
        10 "''JVBERi0=''" "\<lparr>dataGenerationTime = 1, totalTime = 2\<rparr>" 1000]
  by (simp add: initial_page_def generatePdfWithPdfMe_def getWorker_def
        new_Worker_def postMessage_def onmessage_def pooled_onmessage_def releaseWorker_def
        MAX_POOL_SIZE_def settle_def resolve_def merge_metrics_def Let_def)



subsection \<open>The order of the metrics\<close>


lemma Resolved_in_appended:
  "Resolved r \<in> set (xs @ [p]) \<Longrightarrow> Resolved r \<in> set xs \<or> p = Resolved r"
  by auto






















end
